theory Spec2Isabelle
  imports Main
begin

text \<open>
  The React component \<open>CKEditor\<close> of \<open>src/ckeditor.jsx\<close> and its
  \<open>EditorWatchdogAdapter\<close>, as state transformers on a record of the component's
  fields and of the objects it calls: the editor watchdogs, the shared context watchdog,
  the editors, the promises of creations in flight and the queue of \<open>setTimeout\<close>.
  Every call the component makes on those objects, and every callback it invokes, is
  recorded in a trace. The watchdogs and the editor engine belong to other packages;
  they are modelled by what the component relies on.
\<close>

section \<open>JavaScript values\<close>

text \<open>
  The values that reach the component through its properties. Strict equality
  (\<open>===\<close>) on these values is HOL equality; \<open>truthy\<close> is the conversion to boolean
  that \<open>if\<close>, \<open>!\<close>, \<open>&&\<close> and \<open>||\<close> apply.
\<close>

datatype jsval = JUndefined | JNull | JBool bool | JNum int | JStr string

fun truthy :: "jsval \<Rightarrow> bool" where
  "truthy JUndefined = False"
| "truthy JNull = False"
| "truthy (JBool b) = b"
| "truthy (JNum n) = (n \<noteq> 0)"
| "truthy (JStr s) = (s \<noteq> [])"

text \<open>\<open>a || b\<close> and \<open>a && b\<close> return one of their operands.\<close>

definition js_or :: "jsval \<Rightarrow> jsval \<Rightarrow> jsval" where
  "js_or a b = (if truthy a then a else b)"

definition js_and :: "jsval \<Rightarrow> jsval \<Rightarrow> jsval" where
  "js_and a b = (if truthy a then b else a)"

text \<open>An object literal: its own fields. Reading a missing field gives \<open>undefined\<close>.\<close>

type_synonym jsobject = "string \<rightharpoonup> jsval"

definition field :: "jsobject \<Rightarrow> string \<Rightarrow> jsval" where
  "field obj k = (case obj k of None \<Rightarrow> JUndefined | Some v \<Rightarrow> v)"

text \<open>
  What a statement can throw. \<open>TypeError\<close> is a method call or property read on
  \<open>null\<close>; \<open>ItemNotRegistered\<close> is the error of the context watchdog's \<open>getItem\<close>.
\<close>

datatype exn = TypeError | ItemNotRegistered

definition bindE :: "exn + 'a \<Rightarrow> ('a \<Rightarrow> exn + 'b) \<Rightarrow> exn + 'b" where
  "bindE m f = (case m of Inl e \<Rightarrow> Inl e | Inr x \<Rightarrow> f x)"

section \<open>The component's properties and the objects around it\<close>

text \<open>
  Callbacks are function values supplied by the caller; the model names each by a
  number and records every call in the trace. An optional property that is absent is
  \<open>None\<close>. \<open>onError\<close> has a default (\<open>defaultProps\<close>), so it is always there, as
  \<open>config\<close> is (default \<open>{}\<close>). \<open>disabled\<close> is \<open>Some v\<close> exactly when
  \<open>'disabled' in props\<close>.
\<close>

type_synonym callback = nat

record Props =
  id_prop :: jsval
  data :: jsval
  config :: jsobject
  disabled :: "jsval option"
  onReady :: "callback option"
  onChange :: "callback option"
  onFocus :: "callback option"
  onBlur :: "callback option"
  onError :: callback

text \<open>
  An editor instance of the engine: its content (\<open>getData\<close>/\<open>setData\<close>), its
  \<open>isReadOnly\<close> flag and the listeners attached to its documents. Editors are
  referred to by handle (a number), since the watchdog and the component share them.
\<close>

type_synonym handle = nat

record Editor =
  content :: jsval
  isReadOnly :: jsval
  listeners :: "string list"

text \<open>
  \<open>uid()\<close> gives every adapter a process-unique token. The ids of this
  component's adapters are \<open>Own n\<close>; every other user of the shared registry has an
  id \<open>Foreign n\<close>.
\<close>

datatype uid = Own nat | Foreign nat

text \<open>
  \<open>this.watchdog\<close> is an \<open>EditorWatchdog\<close> (by its address in the store of
  watchdogs) or an \<open>EditorWatchdogAdapter\<close> (its \<open>_id\<close>; its \<open>_contextWatchdog\<close>
  is the one shared registry of the model).
\<close>

datatype Watchdog = Solo nat | Adapter uid

text \<open>
  The single-editor watchdog of the watchdog package, as far as the component uses it:
  the editor it holds (\<open>null\<close> until the creator's promise resolves and after
  \<open>destroy\<close>), whether an error listener was registered, and whether it was destroyed.
\<close>

record EditorWatchdog =
  wd_editor :: "handle option"
  wd_listening :: bool
  wd_destroyed :: bool

text \<open>
  The context watchdog, by the contract the adapter consumes: \<open>add\<close> registers an item
  under an id, \<open>remove\<close> drops it, \<open>getItem\<close> throws for an id that is not registered
  and gives the item's editor otherwise (\<open>null\<close> while it is being created), and every
  \<open>itemError\<close> listener is called on an item error. The listeners that adapters of
  this component registered are recorded by the adapter's id, which is all the closure
  of \<open>EditorWatchdogAdapter.on\<close> captures besides the component's callback.
\<close>

record ContextWatchdogObj =
  items :: "uid \<rightharpoonup> handle option"
  itemErrorListeners :: "uid list"

text \<open>
  \<open>this.context\<close>: the one context watchdog of the model, or a value that is not an
  instance of \<open>ContextWatchdog\<close>. The replacement of one context watchdog by another
  is not a step of the model.
\<close>

datatype Context = NullContext | ContextWatchdog

datatype Phase = Initialization | Runtime

type_synonym err = string

text \<open>The calls the component makes on the objects around it, in order.\<close>

datatype Event =
    NewEditorWatchdog nat "handle option"
  | NewEditorWatchdogAdapter uid
  | SetCreator Watchdog
  | OnError Watchdog
  | ConsoleWarn
  | Create Watchdog jsobject
  | Destroy Watchdog
  | SetData handle jsval
  | SetReadOnly handle jsval
  | ListenerOn handle string
  | SetTimeout
  | CallOnReady callback "handle option"
  | CallOnError callback err Phase bool
  | CallOnChange callback handle
  | CallOnFocus callback handle
  | CallOnBlur callback handle

text \<open>
  The state: the fields of the component (\<open>this.props\<close>, \<open>this.context\<close>,
  \<open>this.watchdog\<close>), the objects it talks to, the creations that were issued and have
  not settled, the callbacks queued by \<open>setTimeout\<close>, and the trace of calls.
\<close>

record World =
  props :: Props
  reactContext :: Context
  watchdog :: "Watchdog option"
  editorWatchdogs :: "nat \<Rightarrow> EditorWatchdog"
  nextWatchdog :: nat
  contextWatchdog :: ContextWatchdogObj
  nextUid :: nat
  editors :: "handle \<Rightarrow> Editor"
  nextEditor :: handle
  pending :: "(Watchdog \<times> jsobject) list"
  timers :: nat
  trace :: "Event list"

definition emit :: "Event list \<Rightarrow> World \<Rightarrow> World" where
  "emit es s = s\<lparr>trace := trace s @ es\<rparr>"

section \<open>The watchdogs\<close>

subsection \<open>EditorWatchdogAdapter\<close>

definition getItem :: "ContextWatchdogObj \<Rightarrow> uid \<Rightarrow> exn + handle option" where
  "getItem cw i = (case items cw i of None \<Rightarrow> Inl ItemNotRegistered | Some it \<Rightarrow> Inr it)"

text \<open>The getter \<open>editor\<close> of the adapter: \<open>try { return getItem(id) } catch { return null }\<close>.\<close>

definition adapter_editor :: "ContextWatchdogObj \<Rightarrow> uid \<Rightarrow> exn + handle option" where
  "adapter_editor cw i = (case getItem cw i of Inr it \<Rightarrow> Inr it | Inl e \<Rightarrow> Inr None)"

text \<open>\<open>create\<close>: \<open>contextWatchdog.add({ ..., id: this._id, type: 'editor' })\<close>.\<close>

definition adapter_create :: "uid \<Rightarrow> jsobject \<Rightarrow> World \<Rightarrow> World" where
  "adapter_create i cfg s =
     s\<lparr>contextWatchdog := (contextWatchdog s)\<lparr>items := (items (contextWatchdog s))(i \<mapsto> None)\<rparr>,
       pending := pending s @ [(Adapter i, cfg)]\<rparr>"

text \<open>\<open>on\<close>: subscribes to \<open>itemError\<close> with a closure that compares \<open>itemId\<close> with \<open>this._id\<close>.\<close>

definition adapter_on :: "uid \<Rightarrow> World \<Rightarrow> World" where
  "adapter_on i s =
     s\<lparr>contextWatchdog := (contextWatchdog s)\<lparr>itemErrorListeners := itemErrorListeners (contextWatchdog s) @ [i]\<rparr>\<rparr>"

text \<open>\<open>destroy\<close>: \<open>contextWatchdog.remove(this._id)\<close>.\<close>

definition adapter_destroy :: "uid \<Rightarrow> World \<Rightarrow> World" where
  "adapter_destroy i s =
     s\<lparr>contextWatchdog := (contextWatchdog s)\<lparr>items := (items (contextWatchdog s))(i := None)\<rparr>\<rparr>"

subsection \<open>EditorWatchdog\<close>

definition solo_create :: "nat \<Rightarrow> jsobject \<Rightarrow> World \<Rightarrow> World" where
  "solo_create a cfg s = s\<lparr>pending := pending s @ [(Solo a, cfg)]\<rparr>"

definition solo_on :: "nat \<Rightarrow> World \<Rightarrow> World" where
  "solo_on a s = s\<lparr>editorWatchdogs := (editorWatchdogs s)(a := (editorWatchdogs s a)\<lparr>wd_listening := True\<rparr>)\<rparr>"

definition solo_destroy :: "nat \<Rightarrow> World \<Rightarrow> World" where
  "solo_destroy a s =
     s\<lparr>editorWatchdogs := (editorWatchdogs s)(a := (editorWatchdogs s a)\<lparr>wd_editor := None, wd_destroyed := True\<rparr>)\<rparr>"

subsection \<open>Calls on \<open>this.watchdog\<close>\<close>

text \<open>A method call or a property read on \<open>null\<close> throws a \<open>TypeError\<close>.\<close>

definition watchdog_editor :: "Watchdog option \<Rightarrow> World \<Rightarrow> exn + handle option" where
  "watchdog_editor w s =
     (case w of
        None \<Rightarrow> Inl TypeError
      | Some (Solo a) \<Rightarrow> Inr (wd_editor (editorWatchdogs s a))
      | Some (Adapter i) \<Rightarrow> adapter_editor (contextWatchdog s) i)"

definition watchdog_destroy :: "Watchdog option \<Rightarrow> World \<Rightarrow> exn + World" where
  "watchdog_destroy w s =
     (case w of
        None \<Rightarrow> Inl TypeError
      | Some (Solo a) \<Rightarrow> Inr (solo_destroy a (emit [Destroy (Solo a)] s))
      | Some (Adapter i) \<Rightarrow> Inr (adapter_destroy i (emit [Destroy (Adapter i)] s)))"

definition watchdog_setCreator :: "Watchdog option \<Rightarrow> World \<Rightarrow> exn + World" where
  "watchdog_setCreator w s =
     (case w of None \<Rightarrow> Inl TypeError | Some x \<Rightarrow> Inr (emit [SetCreator x] s))"

definition watchdog_on :: "Watchdog option \<Rightarrow> World \<Rightarrow> exn + World" where
  "watchdog_on w s =
     (case w of
        None \<Rightarrow> Inl TypeError
      | Some (Solo a) \<Rightarrow> Inr (solo_on a (emit [OnError (Solo a)] s))
      | Some (Adapter i) \<Rightarrow> Inr (adapter_on i (emit [OnError (Adapter i)] s)))"

definition watchdog_create :: "Watchdog option \<Rightarrow> jsobject \<Rightarrow> World \<Rightarrow> exn + World" where
  "watchdog_create w cfg s =
     (case w of
        None \<Rightarrow> Inl TypeError
      | Some (Solo a) \<Rightarrow> Inr (solo_create a cfg (emit [Create (Solo a) cfg] s))
      | Some (Adapter i) \<Rightarrow> Inr (adapter_create i cfg (emit [Create (Adapter i) cfg] s)))"

subsection \<open>Calls on an editor\<close>

definition editor_getData :: "handle option \<Rightarrow> World \<Rightarrow> exn + jsval" where
  "editor_getData e s = (case e of None \<Rightarrow> Inl TypeError | Some h \<Rightarrow> Inr (content (editors s h)))"

definition editor_setData :: "handle option \<Rightarrow> jsval \<Rightarrow> World \<Rightarrow> exn + World" where
  "editor_setData e v s =
     (case e of
        None \<Rightarrow> Inl TypeError
      | Some h \<Rightarrow> Inr (emit [SetData h v] (s\<lparr>editors := (editors s)(h := (editors s h)\<lparr>content := v\<rparr>)\<rparr>)))"

definition editor_setReadOnly :: "handle option \<Rightarrow> jsval \<Rightarrow> World \<Rightarrow> exn + World" where
  "editor_setReadOnly e v s =
     (case e of
        None \<Rightarrow> Inl TypeError
      | Some h \<Rightarrow> Inr (emit [SetReadOnly h v] (s\<lparr>editors := (editors s)(h := (editors s h)\<lparr>isReadOnly := v\<rparr>)\<rparr>)))"

definition editor_on :: "handle \<Rightarrow> string \<Rightarrow> World \<Rightarrow> World" where
  "editor_on h name s =
     emit [ListenerOn h name] (s\<lparr>editors := (editors s)(h := (editors s h)\<lparr>listeners := listeners (editors s h) @ [name]\<rparr>)\<rparr>)"

section \<open>The component \<open>CKEditor\<close>\<close>

text \<open>The getter \<open>editor\<close>.\<close>

definition editor :: "World \<Rightarrow> exn + handle option" where
  "editor s = (if watchdog s = None then Inr None else watchdog_editor (watchdog s) s)"

text \<open>\<open>_getConfig\<close>: whether it warns, and the configuration it returns.\<close>

definition getConfig_warns :: "Props \<Rightarrow> bool" where
  "getConfig_warns p = truthy (js_and (data p) (field (config p) ''initialData''))"

definition getConfig_value :: "Props \<Rightarrow> jsobject" where
  "getConfig_value p =
     (config p)(''initialData'' \<mapsto> js_or (js_or (field (config p) ''initialData'') (data p)) (JStr ''''))"

definition getConfig :: "World \<Rightarrow> jsobject \<times> World" where
  "getConfig s =
     (getConfig_value (props s), if getConfig_warns (props s) then emit [ConsoleWarn] s else s)"

text \<open>\<open>_destroyEditor\<close>.\<close>

definition destroyEditor :: "World \<Rightarrow> exn + World" where
  "destroyEditor s =
     (if watchdog s = None then Inr s
      else bindE (watchdog_destroy (watchdog s) s) (\<lambda>s1. Inr (s1\<lparr>watchdog := None\<rparr>)))"

text \<open>\<open>_shouldUpdateEditor\<close>.\<close>

definition shouldUpdateEditor :: "Props \<Rightarrow> World \<Rightarrow> exn + bool" where
  "shouldUpdateEditor nextProps s =
     (if data (props s) = data nextProps then Inr False
      else bindE (editor s) (\<lambda>e. bindE (editor_getData e s) (\<lambda>d.
        if d = data nextProps then Inr False else Inr True)))"

text \<open>\<open>_initializeEditor\<close>.\<close>

definition newWatchdog :: "World \<Rightarrow> exn + World" where
  "newWatchdog s =
     (if reactContext s = ContextWatchdog
      then Inr (emit [NewEditorWatchdogAdapter (Own (nextUid s))]
                 (s\<lparr>watchdog := Some (Adapter (Own (nextUid s))), nextUid := Suc (nextUid s)\<rparr>))
      else bindE (editor s) (\<lambda>e.
             Inr (emit [NewEditorWatchdog (nextWatchdog s) e]
                   (s\<lparr>watchdog := Some (Solo (nextWatchdog s)),
                      editorWatchdogs := (editorWatchdogs s)
                        (nextWatchdog s := \<lparr>wd_editor = None, wd_listening = False, wd_destroyed = False\<rparr>),
                      nextWatchdog := Suc (nextWatchdog s)\<rparr>))))"

definition initializeEditor :: "World \<Rightarrow> exn + World" where
  "initializeEditor s =
     bindE (newWatchdog s) (\<lambda>s1.
     bindE (watchdog_setCreator (watchdog s1) s1) (\<lambda>s2.
     bindE (watchdog_on (watchdog s2) s2) (\<lambda>s3.
     case getConfig s3 of (cfg, s4) \<Rightarrow> watchdog_create (watchdog s4) cfg s4)))"

text \<open>\<open>shouldComponentUpdate\<close>: the value it returns and the state it leaves.\<close>

definition shouldComponentUpdate :: "Props \<Rightarrow> World \<Rightarrow> exn + bool \<times> World" where
  "shouldComponentUpdate nextProps s =
     bindE (editor s) (\<lambda>e0.
       if e0 = None then Inr (False, s)
       else if id_prop nextProps \<noteq> id_prop (props s)
       then bindE (destroyEditor s) (\<lambda>s1. Inr (True, s1))
       else
         bindE (shouldUpdateEditor nextProps s) (\<lambda>b.
         bindE (if b then bindE (editor s) (\<lambda>e. editor_setData e (data nextProps) s) else Inr s) (\<lambda>s1.
         bindE (case disabled nextProps of
                  None \<Rightarrow> Inr s1
                | Some d \<Rightarrow> bindE (editor s1) (\<lambda>e. editor_setReadOnly e d s1)) (\<lambda>s2.
         Inr (False, s2)))))"

definition componentDidMount :: "World \<Rightarrow> exn + World" where
  "componentDidMount s = initializeEditor s"

definition componentDidUpdate :: "World \<Rightarrow> exn + World" where
  "componentDidUpdate s = initializeEditor s"

definition componentWillUnmount :: "World \<Rightarrow> exn + World" where
  "componentWillUnmount s = destroyEditor s"

text \<open>
  The continuation of \<open>_createEditor\<close>, run with the editor that \<open>props.editor.create\<close>
  resolved with: the read-only flag, the three listeners, and \<open>setTimeout\<close> of the
  callback that calls \<open>onReady\<close>.
\<close>

definition createEditor_then :: "handle \<Rightarrow> World \<Rightarrow> exn + World" where
  "createEditor_then h s =
     bindE (case disabled (props s) of
              None \<Rightarrow> Inr s
            | Some d \<Rightarrow> editor_setReadOnly (Some h) d s) (\<lambda>s1.
     Inr (emit [SetTimeout]
            ((editor_on h ''blur'' (editor_on h ''focus'' (editor_on h ''change:data'' s1)))
               \<lparr>timers := Suc (timers s1)\<rparr>)))"

text \<open>The callback given to \<open>setTimeout\<close>.\<close>

definition onReady_timeout :: "World \<Rightarrow> exn + World" where
  "onReady_timeout s =
     (case onReady (props s) of
        None \<Rightarrow> Inr s
      | Some cb \<Rightarrow> bindE (editor s) (\<lambda>e. Inr (emit [CallOnReady cb e] s)))"

text \<open>The listener given to \<open>watchdog.on( 'error', ... )\<close>.\<close>

definition error_listener :: "err \<Rightarrow> bool \<Rightarrow> World \<Rightarrow> World" where
  "error_listener error causesRestart s =
     emit [CallOnError (onError (props s)) error Runtime causesRestart] s"

text \<open>The handler given to \<open>.catch\<close> on the promise of \<open>watchdog.create\<close>.\<close>

definition create_catch :: "err \<Rightarrow> World \<Rightarrow> World" where
  "create_catch error s = emit [CallOnError (onError (props s)) error Initialization False] s"

text \<open>
  The closure that \<open>EditorWatchdogAdapter.on\<close> subscribes to \<open>itemError\<close>, for the
  adapter with id \<open>i\<close> and the component's error listener as its callback.
\<close>

definition adapter_itemError_listener :: "uid \<Rightarrow> uid \<Rightarrow> bool \<Rightarrow> err \<Rightarrow> World \<Rightarrow> World" where
  "adapter_itemError_listener i itemId causesRestart error s =
     (if itemId = i then error_listener error causesRestart s else s)"

text \<open>The three listeners attached to the editor's documents.\<close>

definition change_listener :: "handle \<Rightarrow> World \<Rightarrow> World" where
  "change_listener h s = (case onChange (props s) of None \<Rightarrow> s | Some cb \<Rightarrow> emit [CallOnChange cb h] s)"

definition focus_listener :: "handle \<Rightarrow> World \<Rightarrow> World" where
  "focus_listener h s = (case onFocus (props s) of None \<Rightarrow> s | Some cb \<Rightarrow> emit [CallOnFocus cb h] s)"

definition blur_listener :: "handle \<Rightarrow> World \<Rightarrow> World" where
  "blur_listener h s = (case onBlur (props s) of None \<Rightarrow> s | Some cb \<Rightarrow> emit [CallOnBlur cb h] s)"

section \<open>The environment: promises, timers, events and React\<close>

text \<open>
  The watchdog's own continuation once the creator's promise has resolved: it keeps the
  editor, unless it was destroyed (or its item removed) in the meantime.
\<close>

definition watchdog_keep :: "Watchdog \<Rightarrow> handle \<Rightarrow> World \<Rightarrow> World" where
  "watchdog_keep w h s =
     (case w of
        Solo a \<Rightarrow>
          if wd_destroyed (editorWatchdogs s a) then s
          else s\<lparr>editorWatchdogs := (editorWatchdogs s)(a := (editorWatchdogs s a)\<lparr>wd_editor := Some h\<rparr>)\<rparr>
      | Adapter i \<Rightarrow>
          (case items (contextWatchdog s) i of
             None \<Rightarrow> s
           | Some it \<Rightarrow> s\<lparr>contextWatchdog := (contextWatchdog s)\<lparr>items := (items (contextWatchdog s))(i \<mapsto> Some h)\<rparr>\<rparr>))"

text \<open>
  The \<open>k\<close>-th creation that was issued and has not settled succeeds:
  \<open>props.editor.create( element, config )\<close> resolves with a new editor, whose content is
  the configuration's \<open>initialData\<close>; the continuation of \<open>_createEditor\<close> runs, and
  then the watchdog's.
\<close>

definition create_resolved :: "nat \<Rightarrow> World \<Rightarrow> exn + World" where
  "create_resolved k s =
     (if k < length (pending s)
      then (case pending s ! k of (w, cfg) \<Rightarrow>
              bindE (createEditor_then (nextEditor s)
                       (s\<lparr>editors := (editors s)
                            (nextEditor s := \<lparr>content = field cfg ''initialData'', isReadOnly = JBool False, listeners = []\<rparr>),
                          nextEditor := Suc (nextEditor s),
                          pending := take k (pending s) @ drop (Suc k) (pending s)\<rparr>))
                (\<lambda>s1. Inr (watchdog_keep w (nextEditor s) s1)))
      else Inr s)"

text \<open>The \<open>k\<close>-th creation fails: the promise of \<open>watchdog.create\<close> rejects with the error.\<close>

definition create_rejected :: "nat \<Rightarrow> err \<Rightarrow> World \<Rightarrow> exn + World" where
  "create_rejected k error s =
     (if k < length (pending s)
      then Inr (create_catch error (s\<lparr>pending := take k (pending s) @ drop (Suc k) (pending s)\<rparr>))
      else Inr s)"

text \<open>The oldest callback queued by \<open>setTimeout\<close> runs. All of them are the same closure.\<close>

definition timer_fires :: "World \<Rightarrow> exn + World" where
  "timer_fires s = (if timers s = 0 then Inr s else onReady_timeout (s\<lparr>timers := timers s - 1\<rparr>))"

text \<open>The context watchdog fires \<open>itemError\<close>: every subscribed closure is called.\<close>

definition item_error :: "uid \<Rightarrow> bool \<Rightarrow> err \<Rightarrow> World \<Rightarrow> World" where
  "item_error itemId causesRestart error s =
     fold (\<lambda>i. adapter_itemError_listener i itemId causesRestart error)
       (itemErrorListeners (contextWatchdog s)) s"

text \<open>An editor watchdog fires \<open>error\<close>.\<close>

definition watchdog_error :: "nat \<Rightarrow> bool \<Rightarrow> err \<Rightarrow> World \<Rightarrow> World" where
  "watchdog_error a causesRestart error s =
     (if wd_listening (editorWatchdogs s a) then error_listener error causesRestart s else s)"

text \<open>A document of an editor fires an event: each listener attached under that name runs.\<close>

definition document_listener :: "string \<Rightarrow> handle \<Rightarrow> World \<Rightarrow> World" where
  "document_listener name h s =
     (if name = ''change:data'' then change_listener h s
      else if name = ''focus'' then focus_listener h s
      else if name = ''blur'' then blur_listener h s
      else s)"

definition editor_fires :: "handle \<Rightarrow> string \<Rightarrow> World \<Rightarrow> World" where
  "editor_fires h name s =
     fold (\<lambda>n. if n = name then document_listener n h else id) (listeners (editors s h)) s"

text \<open>
  React, for a class component: after the constructor it calls \<open>componentDidMount\<close>;
  before removing the component it calls \<open>componentWillUnmount\<close>. On an update that
  leaves the value of the context unchanged it calls \<open>shouldComponentUpdate\<close> with the
  next properties, assigns \<open>this.props\<close> and \<open>this.context\<close>, and calls
  \<open>componentDidUpdate\<close> when the answer was \<open>true\<close>. When the value of the context that
  the component reads (\<open>CKEditor.contextType\<close>) has changed, React re-renders the
  component without asking \<open>shouldComponentUpdate\<close>: it assigns \<open>this.props\<close> and
  \<open>this.context\<close> and calls \<open>componentDidUpdate\<close>. A call of \<open>forceUpdate()\<close> by the
  application is not a step of the model.
\<close>

definition constructed :: "Props \<Rightarrow> Context \<Rightarrow> ContextWatchdogObj \<Rightarrow> World" where
  "constructed p c cw =
     \<lparr>props = p, reactContext = c, watchdog = None,
      editorWatchdogs = (\<lambda>a. \<lparr>wd_editor = None, wd_listening = False, wd_destroyed = False\<rparr>),
      nextWatchdog = 0, contextWatchdog = cw, nextUid = 0,
      editors = (\<lambda>h. \<lparr>content = JUndefined, isReadOnly = JUndefined, listeners = []\<rparr>),
      nextEditor = 0, pending = [], timers = 0, trace = []\<rparr>"

definition update :: "Props \<Rightarrow> Context \<Rightarrow> World \<Rightarrow> exn + World" where
  "update nextProps nextContext s =
     (if nextContext \<noteq> reactContext s
      then componentDidUpdate (s\<lparr>props := nextProps, reactContext := nextContext\<rparr>)
      else bindE (shouldComponentUpdate nextProps s) (\<lambda>(r, s1).
             if r then componentDidUpdate (s1\<lparr>props := nextProps, reactContext := nextContext\<rparr>)
             else Inr (s1\<lparr>props := nextProps, reactContext := nextContext\<rparr>)))"

datatype Step =
    Mount
  | Update Props Context
  | Unmount
  | CreateResolved nat
  | CreateRejected nat err
  | TimerFires
  | ItemError uid bool err
  | WatchdogError nat bool err
  | EditorFires handle string

fun step :: "Step \<Rightarrow> World \<Rightarrow> exn + World" where
  "step Mount s = componentDidMount s"
| "step (Update np nc) s = update np nc s"
| "step Unmount s = componentWillUnmount s"
| "step (CreateResolved k) s = create_resolved k s"
| "step (CreateRejected k e) s = create_rejected k e s"
| "step TimerFires s = timer_fires s"
| "step (ItemError i r e) s = Inr (item_error i r e s)"
| "step (WatchdogError a r e) s = Inr (watchdog_error a r e s)"
| "step (EditorFires h n) s = Inr (editor_fires h n s)"

fun run :: "Step list \<Rightarrow> World \<Rightarrow> exn + World" where
  "run [] s = Inr s"
| "run (x # xs) s = bindE (step x s) (run xs)"

section \<open>Notions the statements use\<close>

text \<open>The editor that \<open>this.watchdog\<close> holds, if any.\<close>

definition held :: "World \<Rightarrow> handle option" where
  "held s =
     (case watchdog s of
        None \<Rightarrow> None
      | Some (Solo a) \<Rightarrow> wd_editor (editorWatchdogs s a)
      | Some (Adapter i) \<Rightarrow> (case items (contextWatchdog s) i of None \<Rightarrow> None | Some it \<Rightarrow> it))"

text \<open>The watchdog that \<open>_initializeEditor\<close> makes in a state, and the calls it issues.\<close>

definition fresh_watchdog :: "World \<Rightarrow> Watchdog" where
  "fresh_watchdog s =
     (if reactContext s = ContextWatchdog then Adapter (Own (nextUid s)) else Solo (nextWatchdog s))"

definition construction_event :: "World \<Rightarrow> Event" where
  "construction_event s =
     (if reactContext s = ContextWatchdog then NewEditorWatchdogAdapter (Own (nextUid s))
      else NewEditorWatchdog (nextWatchdog s) (held s))"

definition initialization_events :: "World \<Rightarrow> Event list" where
  "initialization_events s =
     [construction_event s, SetCreator (fresh_watchdog s), OnError (fresh_watchdog s)]
     @ (if getConfig_warns (props s) then [ConsoleWarn] else [])
     @ [Create (fresh_watchdog s) (getConfig_value (props s))]"

fun is_Registry :: "Watchdog \<Rightarrow> bool" where
  "is_Registry (Adapter i) = True"
| "is_Registry (Solo a) = False"

text \<open>Kinds of calls in the trace.\<close>

definition is_SetData :: "Event \<Rightarrow> bool" where
  "is_SetData e = (case e of SetData h v \<Rightarrow> True | _ \<Rightarrow> False)"

definition is_CallOnReady :: "Event \<Rightarrow> bool" where
  "is_CallOnReady e = (case e of CallOnReady cb h \<Rightarrow> True | _ \<Rightarrow> False)"

definition is_Destroy :: "Event \<Rightarrow> bool" where
  "is_Destroy e = (case e of Destroy w \<Rightarrow> True | _ \<Rightarrow> False)"

text \<open>
  The precedence rule for \<open>initialData\<close> and the condition of the warning, read with
  "set" as "given a value": neither \<open>undefined\<close> nor \<open>null\<close>.
\<close>

definition is_set :: "jsval \<Rightarrow> bool" where
  "is_set v = (v \<noteq> JUndefined \<and> v \<noteq> JNull)"

definition initialData_by_presence :: "Props \<Rightarrow> jsval" where
  "initialData_by_presence p =
     (if is_set (field (config p) ''initialData'') then field (config p) ''initialData''
      else if is_set (data p) then data p
      else JStr '''')"

definition warns_by_presence :: "Props \<Rightarrow> bool" where
  "warns_by_presence p = (is_set (data p) \<and> is_set (field (config p) ''initialData''))"

subsection \<open>The life of one mounted component\<close>







definition registry_of_others :: "(nat \<rightharpoonup> handle option) \<Rightarrow> ContextWatchdogObj" where
  "registry_of_others f =
     \<lparr>items = (\<lambda>i. case i of Own n \<Rightarrow> None | Foreign m \<Rightarrow> f m), itemErrorListeners = []\<rparr>"

text \<open>
  The editors held by the watchdogs that this component has made so far: the editor
  watchdogs, and the items that its adapters registered.
\<close>

definition live_handles :: "World \<Rightarrow> handle list" where
  "live_handles s =
     List.map_filter (\<lambda>a. wd_editor (editorWatchdogs s a)) [0..<nextWatchdog s]
     @ List.map_filter (\<lambda>n. case items (contextWatchdog s) (Own n) of Some (Some h) \<Rightarrow> Some h | _ \<Rightarrow> None)
         [0..<nextUid s]"

text \<open>
  What holds in every state of a life that keeps the context: a watchdog this
  component made and no longer refers to was destroyed and holds no editor; the watchdog
  it refers to was made by it and is not destroyed; a creation that has not settled
  belongs to the current watchdog, which then holds no editor yet, or else no watchdog
  is assigned.
\<close>

fun allocated_at :: "nat \<Rightarrow> nat \<Rightarrow> Watchdog \<Rightarrow> bool" where
  "allocated_at nw nu (Solo a) = (a < nw)"
| "allocated_at nw nu (Adapter (Own n)) = (n < nu)"
| "allocated_at nw nu (Adapter (Foreign m)) = False"

definition allocated :: "World \<Rightarrow> Watchdog \<Rightarrow> bool" where
  "allocated s w = allocated_at (nextWatchdog s) (nextUid s) w"

definition consistent :: "World \<Rightarrow> bool" where
  "consistent s =
     ((\<forall>a. watchdog s \<noteq> Some (Solo a) \<longrightarrow> a < nextWatchdog s \<longrightarrow>
          wd_destroyed (editorWatchdogs s a) \<and> wd_editor (editorWatchdogs s a) = None)
    \<and> (\<forall>n. watchdog s \<noteq> Some (Adapter (Own n)) \<longrightarrow> items (contextWatchdog s) (Own n) = None)
    \<and> (\<forall>a. watchdog s = Some (Solo a) \<longrightarrow> \<not> wd_destroyed (editorWatchdogs s a))
    \<and> (\<forall>i. watchdog s = Some (Adapter i) \<longrightarrow> items (contextWatchdog s) i \<noteq> None)
    \<and> (\<forall>w. watchdog s = Some w \<longrightarrow> allocated s w)
    \<and> (\<forall>w cfg. (w, cfg) \<in> set (pending s) \<longrightarrow> allocated s w)
    \<and> distinct (map fst (pending s))
    \<and> (\<forall>w cfg. (w, cfg) \<in> set (pending s) \<longrightarrow> watchdog s = Some w \<longrightarrow> held s = None)
    \<and> (\<forall>w cfg. (w, cfg) \<in> set (pending s) \<longrightarrow> watchdog s = Some w \<or> watchdog s = None))"

text \<open>Two states that agree on the watchdogs, the registry and the unsettled creations.\<close>

definition same_core :: "World \<Rightarrow> World \<Rightarrow> bool" where
  "same_core s' s =
     (watchdog s' = watchdog s \<and> editorWatchdogs s' = editorWatchdogs s \<and>
      contextWatchdog s' = contextWatchdog s \<and> nextWatchdog s' = nextWatchdog s \<and>
      nextUid s' = nextUid s \<and> pending s' = pending s)"

subsection \<open>Examples\<close>

text \<open>
  Concrete properties, a registry without items, and the component after the
  constructor, after mounting, and after its first creation has succeeded.
\<close>

definition example_props :: Props where
  "example_props =
     \<lparr>id_prop = JStr ''1'', data = JStr ''<p>A</p>'', config = Map.empty, disabled = None,
      onReady = Some 1, onChange = None, onFocus = None, onBlur = None, onError = 2\<rparr>"

definition empty_registry :: ContextWatchdogObj where
  "empty_registry = registry_of_others Map.empty"

definition example_world :: "Context \<Rightarrow> World" where
  "example_world c = constructed example_props c empty_registry"

definition creating_world :: "Context \<Rightarrow> World" where
  "creating_world c = (case run [Mount] (example_world c) of Inr s \<Rightarrow> s | Inl e \<Rightarrow> example_world c)"

definition ready_world :: "Context \<Rightarrow> World" where
  "ready_world c =
     (case run [Mount, CreateResolved 0] (example_world c) of Inr s \<Rightarrow> s | Inl e \<Rightarrow> example_world c)"

section \<open>Basic facts\<close>

lemma bindE_Inr [simp]: "bindE (Inr x) f = f x"
  by (simp add: bindE_def)

lemma bindE_Inl [simp]: "bindE (Inl e) f = Inl e"
  by (simp add: bindE_def)

lemmas model_defs =
  constructed_def example_world_def example_props_def empty_registry_def registry_of_others_def
  componentDidMount_def componentDidUpdate_def componentWillUnmount_def initializeEditor_def
  newWatchdog_def watchdog_setCreator_def watchdog_on_def watchdog_create_def
  watchdog_destroy_def watchdog_editor_def solo_create_def solo_on_def solo_destroy_def
  adapter_create_def adapter_on_def adapter_destroy_def adapter_editor_def getItem_def
  getConfig_def getConfig_value_def getConfig_warns_def js_or_def js_and_def field_def emit_def
  editor_def destroyEditor_def shouldUpdateEditor_def shouldComponentUpdate_def update_def
  create_resolved_def create_rejected_def createEditor_then_def editor_on_def
  editor_setData_def editor_getData_def editor_setReadOnly_def watchdog_keep_def
  timer_fires_def onReady_timeout_def create_catch_def error_listener_def item_error_def
  adapter_itemError_listener_def watchdog_error_def

lemmas example_defs = creating_world_def ready_world_def model_defs

lemma adapter_editor_eq:
  "adapter_editor cw i = Inr (case items cw i of None \<Rightarrow> None | Some it \<Rightarrow> it)"
  by (simp add: adapter_editor_def getItem_def split: option.split)

lemma editor_eq: "editor s = Inr (held s)"
  by (simp add: editor_def held_def watchdog_editor_def adapter_editor_eq
      split: option.split Watchdog.split)

lemma initializeEditor_total: "\<exists>s'. initializeEditor s = Inr s'"
  by (simp add: initializeEditor_def newWatchdog_def editor_eq watchdog_setCreator_def
      watchdog_on_def watchdog_create_def getConfig_def emit_def solo_on_def adapter_on_def)

lemma initializeEditor_facts:
  assumes "initializeEditor s = Inr s'"
  shows "watchdog s' = Some (fresh_watchdog s)"
    and "trace s' = trace s @ initialization_events s"
    and "pending s' = pending s @ [(fresh_watchdog s, getConfig_value (props s))]"
    and "props s' = props s"
    and "reactContext s' = reactContext s"
    and "timers s' = timers s"
    and "held s' = None"
  using assms
  by (auto simp: initializeEditor_def newWatchdog_def editor_eq watchdog_setCreator_def
      watchdog_on_def watchdog_create_def getConfig_def emit_def fresh_watchdog_def
      construction_event_def initialization_events_def held_def
      solo_on_def solo_create_def adapter_on_def adapter_create_def split: if_splits)

lemma props_error_listener: "props (error_listener e r s) = props s"
  by (simp add: error_listener_def emit_def)

lemma trace_error_listener:
  "trace (error_listener e r s) = trace s @ [CallOnError (onError (props s)) e Runtime r]"
  by (simp add: error_listener_def emit_def)

lemma props_itemError_listener: "props (adapter_itemError_listener i itemId r e s) = props s"
  by (simp add: adapter_itemError_listener_def props_error_listener)

lemma trace_itemError_listener:
  "trace (adapter_itemError_listener i itemId r e s) =
     trace s @ (if itemId = i then [CallOnError (onError (props s)) e Runtime r] else [])"
  by (simp add: adapter_itemError_listener_def trace_error_listener)

lemma trace_fold_itemError:
  "trace (fold (\<lambda>i. adapter_itemError_listener i itemId r e) ls s) =
     trace s @ concat (map (\<lambda>i. if itemId = i then [CallOnError (onError (props s)) e Runtime r] else []) ls)"
proof (induction ls arbitrary: s)
  case Nil
  show ?case by simp
next
  case (Cons i ls)
  have "trace (fold (\<lambda>i. adapter_itemError_listener i itemId r e) (i # ls) s) =
        trace (fold (\<lambda>i. adapter_itemError_listener i itemId r e) ls (adapter_itemError_listener i itemId r e s))"
    by simp
  also have "\<dots> = trace (adapter_itemError_listener i itemId r e s)
      @ concat (map (\<lambda>i. if itemId = i then [CallOnError (onError (props s)) e Runtime r] else []) ls)"
    by (simp only: Cons.IH props_itemError_listener)
  finally show ?case
    by (simp only: trace_itemError_listener list.map concat.simps append_assoc)
qed

section \<open>What holds throughout a life that keeps the context\<close>


lemma held_cong:
  "watchdog s' = watchdog s \<Longrightarrow> editorWatchdogs s' = editorWatchdogs s \<Longrightarrow>
   contextWatchdog s' = contextWatchdog s \<Longrightarrow> held s' = held s"
  by (simp add: held_def split: option.split Watchdog.split)

lemma consistent_cong:
  "watchdog s' = watchdog s \<Longrightarrow> editorWatchdogs s' = editorWatchdogs s \<Longrightarrow>
   contextWatchdog s' = contextWatchdog s \<Longrightarrow> nextWatchdog s' = nextWatchdog s \<Longrightarrow>
   nextUid s' = nextUid s \<Longrightarrow> pending s' = pending s \<Longrightarrow> consistent s' = consistent s"
  by (simp add: consistent_def allocated_def held_cong [of s' s])


lemma consistent_emit [simp]: "consistent (emit es s) = consistent s"
  by (rule consistent_cong) (simp_all add: emit_def)

lemma consistent_frame [simp]:
  "consistent (s\<lparr>props := p\<rparr>) = consistent s"
  "consistent (s\<lparr>reactContext := c\<rparr>) = consistent s"
  "consistent (s\<lparr>editors := ed\<rparr>) = consistent s"
  "consistent (s\<lparr>timers := t\<rparr>) = consistent s"
  "consistent (s\<lparr>trace := tr\<rparr>) = consistent s"
  "consistent (s\<lparr>nextEditor := ne\<rparr>) = consistent s"
  by (rule consistent_cong; simp)+





lemma same_core_refl [simp]: "same_core s s"
  by (simp add: same_core_def)



lemma same_core_held: "same_core s' s \<Longrightarrow> held s' = held s"
  unfolding same_core_def by (intro held_cong) simp_all

lemma same_core_emit [simp]: "same_core (emit es s) s"
  by (simp add: same_core_def emit_def)

lemma same_core_updates [simp]:
  "same_core (s\<lparr>props := p\<rparr>) s"
  "same_core (s\<lparr>reactContext := c\<rparr>) s"
  "same_core (s\<lparr>editors := ed\<rparr>) s"
  "same_core (s\<lparr>timers := t\<rparr>) s"
  "same_core (s\<lparr>trace := tr\<rparr>) s"
  "same_core (s\<lparr>nextEditor := ne\<rparr>) s"
  by (simp_all add: same_core_def)

lemma same_core_setData:
  "editor_setData (Some h) v s = Inr s' \<Longrightarrow> same_core s' s"
  by (auto simp: editor_setData_def same_core_def emit_def)

lemma same_core_setReadOnly:
  "editor_setReadOnly (Some h) v s = Inr s' \<Longrightarrow> same_core s' s"
  by (auto simp: editor_setReadOnly_def same_core_def emit_def)

lemma same_core_editor_on: "same_core (editor_on h n s) s"
  by (simp add: editor_on_def same_core_def emit_def)

lemma createEditor_then_total: "\<exists>s'. createEditor_then h s = Inr s'"
  by (simp add: createEditor_then_def editor_setReadOnly_def split: option.split)



lemma destroyEditor_total: "\<exists>s'. destroyEditor s = Inr s'"
  by (simp add: destroyEditor_def watchdog_destroy_def split: option.split Watchdog.split)

lemma shouldComponentUpdate_total: "\<exists>r s'. shouldComponentUpdate np s = Inr (r, s')"
proof (cases "held s")
  case None
  then show ?thesis by (auto simp: shouldComponentUpdate_def editor_eq)
next
  case (Some h)
  obtain s1 where "destroyEditor s = Inr s1" using destroyEditor_total by blast
  with Some show ?thesis
    by (auto simp: shouldComponentUpdate_def editor_eq shouldUpdateEditor_def editor_getData_def
          editor_setData_def editor_setReadOnly_def emit_def held_def
          split: option.splits if_splits Watchdog.splits)
qed



lemma update_kept:
  "nc = reactContext s \<Longrightarrow>
   update np nc s = bindE (shouldComponentUpdate np s) (\<lambda>(r, s1).
     if r then componentDidUpdate (s1\<lparr>props := np, reactContext := nc\<rparr>)
     else Inr (s1\<lparr>props := np, reactContext := nc\<rparr>))"
  unfolding update_def by (simp only: simp_thms if_False)

lemma update_forced:
  "nc \<noteq> reactContext s \<Longrightarrow>
   update np nc s = initializeEditor (s\<lparr>props := np, reactContext := nc\<rparr>)"
  by (simp add: update_def componentDidUpdate_def)




























lemma update_total: "\<exists>s'. update np nc s = Inr s'"
proof (cases "nc = reactContext s")
  case False
  then show ?thesis
    using initializeEditor_total [of "s\<lparr>props := np, reactContext := nc\<rparr>"]
    by (simp add: update_forced)
next
  case True
  obtain r s1 where "shouldComponentUpdate np s = Inr (r, s1)"
    using shouldComponentUpdate_total by blast
  then show ?thesis
    using initializeEditor_total [of "s1\<lparr>props := np, reactContext := nc\<rparr>"]
    by (auto simp: update_kept [OF True] componentDidUpdate_def)
qed

lemma create_resolved_total: "\<exists>s'. create_resolved k s = Inr s'"
proof (cases "k < length (pending s)")
  case False
  then show ?thesis by (simp add: create_resolved_def)
next
  case True
  obtain s1 where "createEditor_then (nextEditor s)
       (s\<lparr>editors := (editors s)
            (nextEditor s := \<lparr>content = field (snd (pending s ! k)) ''initialData'',
                              isReadOnly = JBool False, listeners = []\<rparr>),
          nextEditor := Suc (nextEditor s),
          pending := take k (pending s) @ drop (Suc k) (pending s)\<rparr>) = Inr s1"
    using createEditor_then_total by blast
  with True show ?thesis by (simp add: create_resolved_def case_prod_beta)
qed

lemma timer_fires_total: "\<exists>s'. timer_fires s = Inr s'"
  by (simp add: timer_fires_def onReady_timeout_def editor_eq split: option.split)

lemma step_total: "\<exists>s'. step st s = Inr s'"
proof (cases st)
  case Mount
  then show ?thesis using initializeEditor_total by (simp add: componentDidMount_def)
next
  case (Update np nc)
  then show ?thesis using update_total by simp
next
  case Unmount
  then show ?thesis using destroyEditor_total by (simp add: componentWillUnmount_def)
next
  case (CreateResolved k)
  then show ?thesis using create_resolved_total by simp
next
  case (CreateRejected k e)
  then show ?thesis by (simp add: create_rejected_def)
next
  case TimerFires
  then show ?thesis using timer_fires_total by simp
qed simp_all

lemma run_total: "\<exists>s'. run steps s = Inr s'"
proof (induction steps arbitrary: s)
  case Nil
  show ?case by simp
next
  case (Cons st steps)
  obtain s1 where "step st s = Inr s1" using step_total by blast
  then show ?case using Cons.IH [of s1] by simp
qed

section \<open>The example states\<close>


lemma run_ready_world: "run [Mount, CreateResolved 0] (example_world c) = Inr (ready_world c)"
proof -
  obtain s where "run [Mount, CreateResolved 0] (example_world c) = Inr s" using run_total by blast
  then show ?thesis by (simp add: ready_world_def)
qed

section \<open>The ready callback\<close>

text \<open>
  C1. The callback that the continuation of \<open>_createEditor\<close> queues with
  \<open>setTimeout\<close> passes \<open>this.editor\<close> as read when the callback runs, not the editor
  that its creation produced. Mounted with an \<open>onReady\<close> property: once the creation
  has succeeded the getter \<open>editor\<close> gives editor 0, and the callback, run next, calls
  \<open>onReady\<close> once with editor 0. When the component is unmounted between the creation
  and the callback, the getter gives \<open>null\<close> and \<open>onReady\<close> is called with \<open>null\<close>.
  When an update changes the \<open>id\<close> and the second creation succeeds before either
  callback has run, both callbacks pass the second editor and none passes the first.
\<close>

theorem ready_callback_reads_editor_when_it_runs:
  "map_sum id editor (run [Mount, CreateResolved 0] (example_world NullContext)) = Inr (Inr (Some 0))
   \<and> map_sum id (\<lambda>s. filter is_CallOnReady (trace s))
        (run [Mount, CreateResolved 0, TimerFires] (example_world NullContext))
      = Inr [CallOnReady 1 (Some 0)]
   \<and> map_sum id editor (run [Mount, CreateResolved 0, Unmount] (example_world NullContext))
      = Inr (Inr None)
   \<and> map_sum id (\<lambda>s. filter is_CallOnReady (trace s))
        (run [Mount, CreateResolved 0, Unmount, TimerFires] (example_world NullContext))
      = Inr [CallOnReady 1 None]
   \<and> map_sum id (\<lambda>s. filter is_CallOnReady (trace s))
        (run [Mount, CreateResolved 0, Update (example_props\<lparr>id_prop := JStr ''2''\<rparr>) NullContext,
              CreateResolved 0, TimerFires, TimerFires] (example_world NullContext))
      = Inr [CallOnReady 1 (Some 1), CallOnReady 1 (Some 1)]"
  by (simp add: model_defs is_CallOnReady_def)

section \<open>Content pushes on an update in place\<close>

text \<open>
  C2. An update that keeps the \<open>id\<close>, received while an editor is live:
  \<open>shouldComponentUpdate\<close> answers \<open>false\<close>, and it calls \<open>setData\<close> exactly when the
  new \<open>data\<close> differs from both the previous \<open>data\<close> property and the editor's
  \<open>getData()\<close>; the call is then made once, on the live editor, with the new value.
  The only other call is the assignment of \<open>isReadOnly\<close> when \<open>disabled\<close> is given.
  When the update leaves the context as it is, React does nothing more than assign the
  new properties.
\<close>

theorem content_push_iff_differs_from_both:
  assumes "editor s = Inr (Some h)" and "id_prop np = id_prop (props s)"
  shows "\<exists>s'. shouldComponentUpdate np s = Inr (False, s')
           \<and> update np (reactContext s) s = Inr (s'\<lparr>props := np, reactContext := reactContext s\<rparr>)
           \<and> trace s' = trace s
                @ (if data np \<noteq> data (props s) \<and> data np \<noteq> content (editors s h)
                   then [SetData h (data np)] else [])
                @ (case disabled np of None \<Rightarrow> [] | Some d \<Rightarrow> [SetReadOnly h d])
           \<and> filter is_SetData (drop (length (trace s)) (trace s'))
               = (if data np \<noteq> data (props s) \<and> data np \<noteq> content (editors s h)
                  then [SetData h (data np)] else [])"
  using assms
  by (auto simp: shouldComponentUpdate_def update_def shouldUpdateEditor_def editor_eq held_def
      editor_getData_def editor_setData_def editor_setReadOnly_def emit_def is_SetData_def
      split: option.splits Watchdog.splits)

theorem content_push_witness:
  "editor (ready_world NullContext) = Inr (Some 0)
   \<and> id_prop (example_props\<lparr>data := JStr ''<p>B</p>''\<rparr>) = id_prop (props (ready_world NullContext))
   \<and> (\<exists>s'. shouldComponentUpdate (example_props\<lparr>data := JStr ''<p>B</p>''\<rparr>) (ready_world NullContext) = Inr (False, s')
         \<and> filter is_SetData (drop (length (trace (ready_world NullContext))) (trace s')) = [SetData 0 (JStr ''<p>B</p>'')])
   \<and> (\<exists>s'. shouldComponentUpdate (example_props\<lparr>disabled := Some (JBool True)\<rparr>) (ready_world NullContext) = Inr (False, s')
         \<and> filter is_SetData (drop (length (trace (ready_world NullContext))) (trace s')) = [])"
proof -
  have h: "editor (ready_world NullContext) = Inr (Some 0)"
    by (simp add: example_defs)
  have i1: "id_prop (example_props\<lparr>data := JStr ''<p>B</p>''\<rparr>) = id_prop (props (ready_world NullContext))"
    by (simp add: example_defs)
  have i2: "id_prop (example_props\<lparr>disabled := Some (JBool True)\<rparr>) = id_prop (props (ready_world NullContext))"
    by (simp add: example_defs)
  have d: "data (props (ready_world NullContext)) = JStr ''<p>A</p>''"
    "content (editors (ready_world NullContext) 0) = JStr ''<p>A</p>''"
    by (simp_all add: example_defs)
  show ?thesis
    using h i1 d content_push_iff_differs_from_both [OF h i1]
      content_push_iff_differs_from_both [OF h i2]
    by (auto simp: example_props_def)
qed

section \<open>Recreation on a change of \<open>id\<close>\<close>

text \<open>
  C3. With editor 0 live under an \<open>EditorWatchdog\<close>, an update changes the \<open>id\<close>.
  When the context is unchanged, \<open>shouldComponentUpdate\<close> runs: \<open>destroy\<close> is issued on
  the old watchdog before the new one is made and \<open>create\<close> is issued on it, and once
  the new creation has succeeded only the new editor is held. When the same update
  arrives with a changed context, React does not ask \<open>shouldComponentUpdate\<close>:
  \<open>componentDidUpdate\<close> makes the new watchdog and issues \<open>create\<close>, no \<open>destroy\<close> is
  issued, the old watchdog still holds editor 0, and once the new creation has succeeded
  the watchdogs of the component hold two editors.
\<close>

theorem recreation_on_changed_context_skips_destroy:
  "map_sum id (\<lambda>s. drop (length (trace (ready_world NullContext))) (trace s))
      (update (example_props\<lparr>id_prop := JStr ''2''\<rparr>) NullContext (ready_world NullContext))
     = Inr [Destroy (Solo 0), NewEditorWatchdog 1 None, SetCreator (Solo 1), OnError (Solo 1),
            Create (Solo 1) [''initialData'' \<mapsto> JStr ''<p>A</p>'']]
   \<and> map_sum id live_handles
        (run [Mount, CreateResolved 0, Update (example_props\<lparr>id_prop := JStr ''2''\<rparr>) NullContext,
              CreateResolved 0] (example_world NullContext))
      = Inr [1]
   \<and> map_sum id (\<lambda>s. drop (length (trace (ready_world NullContext))) (trace s))
        (update (example_props\<lparr>id_prop := JStr ''2''\<rparr>) ContextWatchdog (ready_world NullContext))
      = Inr [NewEditorWatchdogAdapter (Own 0), SetCreator (Adapter (Own 0)), OnError (Adapter (Own 0)),
             Create (Adapter (Own 0)) [''initialData'' \<mapsto> JStr ''<p>A</p>'']]
   \<and> map_sum id (\<lambda>s. (filter is_Destroy (trace s), wd_editor (editorWatchdogs s 0), live_handles s))
        (run [Mount, CreateResolved 0, Update (example_props\<lparr>id_prop := JStr ''2''\<rparr>) ContextWatchdog]
           (example_world NullContext))
      = Inr ([], Some 0, [0])
   \<and> map_sum id live_handles
        (run [Mount, CreateResolved 0, Update (example_props\<lparr>id_prop := JStr ''2''\<rparr>) ContextWatchdog,
              CreateResolved 0] (example_world NullContext))
      = Inr [0, 1]"
  by (simp add: example_defs live_handles_def is_Destroy_def List.map_filter_simps upt_rec)

section \<open>Routing of item errors in the registry\<close>

text \<open>
  C4. The closure that the adapter with id \<open>i\<close> subscribes to \<open>itemError\<close> calls the
  component's error callback (phase \<open>runtime\<close>) if and only if the event's \<open>itemId\<close> is
  \<open>i\<close>, and does nothing otherwise. When the context watchdog fires an item error, the
  callbacks called are those of the subscribed adapters whose id is the event's. Under a
  context watchdog, \<open>_initializeEditor\<close> subscribes the closure of the adapter it has
  just made, under the id that adapter generated.
\<close>

theorem item_error_reaches_own_adapter_only:
  "adapter_itemError_listener i itemId causesRestart error s =
     (if itemId = i then emit [CallOnError (onError (props s)) error Runtime causesRestart] s else s)
   \<and> (CallOnError (onError (props s)) error Runtime causesRestart
        \<in> set (drop (length (trace s)) (trace (adapter_itemError_listener i itemId causesRestart error s))))
       = (itemId = i)
   \<and> trace (item_error itemId causesRestart error s) =
       trace s @ concat (map (\<lambda>i. if itemId = i then [CallOnError (onError (props s)) error Runtime causesRestart] else [])
                          (itemErrorListeners (contextWatchdog s)))
   \<and> (reactContext s = ContextWatchdog \<longrightarrow>
        (\<exists>s'. initializeEditor s = Inr s'
           \<and> watchdog s' = Some (Adapter (Own (nextUid s)))
           \<and> itemErrorListeners (contextWatchdog s') = itemErrorListeners (contextWatchdog s) @ [Own (nextUid s)]))"
proof -
  have "reactContext s = ContextWatchdog \<Longrightarrow>
        (\<exists>s'. initializeEditor s = Inr s'
           \<and> watchdog s' = Some (Adapter (Own (nextUid s)))
           \<and> itemErrorListeners (contextWatchdog s') = itemErrorListeners (contextWatchdog s) @ [Own (nextUid s)])"
    by (simp add: initializeEditor_def newWatchdog_def watchdog_setCreator_def watchdog_on_def
        watchdog_create_def getConfig_def emit_def adapter_on_def adapter_create_def)
  then show ?thesis
    by (simp add: trace_fold_itemError item_error_def adapter_itemError_listener_def
        error_listener_def emit_def)
qed

theorem item_error_witness:
  "watchdog (creating_world ContextWatchdog) = Some (Adapter (Own 0))
   \<and> trace (item_error (Own 0) True ''boom'' (creating_world ContextWatchdog))
       = trace (creating_world ContextWatchdog) @ [CallOnError 2 ''boom'' Runtime True]
   \<and> trace (item_error (Foreign 7) True ''boom'' (creating_world ContextWatchdog))
       = trace (creating_world ContextWatchdog)"
proof -
  have l: "itemErrorListeners (contextWatchdog (creating_world ContextWatchdog)) = [Own 0]"
    "onError (props (creating_world ContextWatchdog)) = 2"
    "watchdog (creating_world ContextWatchdog) = Some (Adapter (Own 0))"
    by (simp_all add: example_defs)
  show ?thesis
    using l item_error_reaches_own_adapter_only [of "Own 0" "Own 0" True "''boom''" "creating_world ContextWatchdog"]
      item_error_reaches_own_adapter_only [of "Own 0" "Foreign 7" True "''boom''" "creating_world ContextWatchdog"]
    by simp
qed

section \<open>The configuration passed to \<open>create\<close>\<close>

text \<open>
  C5, as the code has it. \<open>_getConfig\<close> returns the caller's \<open>config\<close> with
  \<open>initialData\<close> set to: the config's own \<open>initialData\<close> if that is truthy (for a
  string: not empty), else the \<open>data\<close> property if that is truthy, else the empty
  string. It warns exactly when both are truthy. \<open>_initializeEditor\<close> passes that
  configuration to \<open>create\<close>, after the warning if there is one.
\<close>

theorem initialData_by_truthiness:
  "getConfig_value p =
     (config p)(''initialData'' \<mapsto>
        (if truthy (field (config p) ''initialData'') then field (config p) ''initialData''
         else if truthy (data p) then data p
         else JStr ''''))
   \<and> getConfig_warns p = (truthy (data p) \<and> truthy (field (config p) ''initialData''))
   \<and> (\<exists>s'. initializeEditor s = Inr s'
        \<and> trace s' = trace s
             @ [construction_event s, SetCreator (fresh_watchdog s), OnError (fresh_watchdog s)]
             @ (if getConfig_warns (props s) then [ConsoleWarn] else [])
             @ [Create (fresh_watchdog s) (getConfig_value (props s))])"
proof -
  obtain s' where s': "initializeEditor s = Inr s'"
    using initializeEditor_total by blast
  have "trace s' = trace s @ initialization_events s"
    using s' by (rule initializeEditor_facts)
  then show ?thesis
    using s' by (simp add: getConfig_value_def getConfig_warns_def js_or_def js_and_def
        initialization_events_def)
qed

theorem initialData_witness:
  "field (getConfig_value (example_props\<lparr>config := [''initialData'' \<mapsto> JStr ''<p>C</p>'']\<rparr>)) ''initialData''
     = JStr ''<p>C</p>''
   \<and> getConfig_warns (example_props\<lparr>config := [''initialData'' \<mapsto> JStr ''<p>C</p>'']\<rparr>) = True
   \<and> field (getConfig_value example_props) ''initialData'' = JStr ''<p>A</p>''
   \<and> getConfig_warns example_props = False
   \<and> (\<exists>s'. initializeEditor (example_world NullContext) = Inr s'
         \<and> trace s' = [NewEditorWatchdog 0 None, SetCreator (Solo 0), OnError (Solo 0),
                        Create (Solo 0) [''initialData'' \<mapsto> JStr ''<p>A</p>'']])"
  using initialData_by_truthiness [of "example_props\<lparr>config := [''initialData'' \<mapsto> JStr ''<p>C</p>'']\<rparr>" "example_world NullContext"]
    initialData_by_truthiness [of example_props "example_world NullContext"]
  by (simp add: field_def example_props_def example_world_def constructed_def
      construction_event_def fresh_watchdog_def held_def)

text \<open>
  C5, as stated, fails where a value is given but falsy. With \<open>config.initialData\<close> the
  empty string and \<open>data\<close> \<open><p>A</p>\<close>, the configuration gets \<open><p>A</p>\<close>, not the
  config's own field; with \<open>data\<close> the empty string and \<open>config.initialData\<close>
  \<open><p>B</p>\<close>, both are given and there is no warning.
\<close>

theorem initialData_by_presence_counterexample:
  "field (getConfig_value (example_props\<lparr>config := [''initialData'' \<mapsto> JStr '''']\<rparr>)) ''initialData''
     = JStr ''<p>A</p>''
   \<and> initialData_by_presence (example_props\<lparr>config := [''initialData'' \<mapsto> JStr '''']\<rparr>) = JStr ''''
   \<and> getConfig_warns (example_props\<lparr>data := JStr '''', config := [''initialData'' \<mapsto> JStr ''<p>B</p>'']\<rparr>) = False
   \<and> warns_by_presence (example_props\<lparr>data := JStr '''', config := [''initialData'' \<mapsto> JStr ''<p>B</p>'']\<rparr>) = True"
  by (simp add: getConfig_value_def getConfig_warns_def initialData_by_presence_def
      warns_by_presence_def is_set_def field_def js_or_def js_and_def example_props_def)

section \<open>A creation that fails\<close>



section \<open>The accessors and destruction do not throw\<close>

text \<open>
  C7. The adapter's getter \<open>editor\<close> never throws: whatever the registry holds, it
  returns a value, and \<open>null\<close> whenever \<open>getItem\<close> throws for the adapter's id. The
  component's getter \<open>editor\<close> never throws either; it returns \<open>null\<close> when no watchdog
  is assigned, and when the watchdog is an adapter whose id is not registered.
\<close>

theorem accessor_never_throws:
  "(\<exists>v. adapter_editor cw i = Inr v) \<and>
   (\<forall>e. getItem cw i = Inl e \<longrightarrow> adapter_editor cw i = Inr None) \<and>
   (\<exists>v. editor s = Inr v) \<and>
   (watchdog s = None \<longrightarrow> editor s = Inr None) \<and>
   (\<forall>j. watchdog s = Some (Adapter j) \<and> items (contextWatchdog s) j = None \<longrightarrow> editor s = Inr None)"
  by (auto simp: editor_eq held_def adapter_editor_def split: sum.split)

theorem accessor_witness:
  "getItem empty_registry (Own 0) = Inl ItemNotRegistered
   \<and> adapter_editor empty_registry (Own 0) = Inr None
   \<and> watchdog (example_world ContextWatchdog) = None
   \<and> editor (example_world ContextWatchdog) = Inr None
   \<and> watchdog ((creating_world ContextWatchdog)\<lparr>contextWatchdog := empty_registry\<rparr>) = Some (Adapter (Own 0))
   \<and> editor ((creating_world ContextWatchdog)\<lparr>contextWatchdog := empty_registry\<rparr>) = Inr None"
proof -
  have a: "getItem empty_registry (Own 0) = Inl ItemNotRegistered"
    by (simp add: getItem_def empty_registry_def registry_of_others_def)
  have b: "watchdog (example_world ContextWatchdog) = None"
    by (simp add: example_defs)
  have c: "watchdog ((creating_world ContextWatchdog)\<lparr>contextWatchdog := empty_registry\<rparr>) = Some (Adapter (Own 0))"
    "items (contextWatchdog ((creating_world ContextWatchdog)\<lparr>contextWatchdog := empty_registry\<rparr>)) (Own 0) = None"
    by (simp_all add: example_defs)
  show ?thesis
    using a b c accessor_never_throws [of empty_registry "Own 0" "example_world ContextWatchdog"]
      accessor_never_throws [of empty_registry "Own 0" "(creating_world ContextWatchdog)\<lparr>contextWatchdog := empty_registry\<rparr>"]
    by simp
qed

text \<open>
  C8. \<open>_destroyEditor\<close> and \<open>componentWillUnmount\<close> return normally in every state and
  leave \<open>this.watchdog\<close> \<open>null\<close>; with no watchdog assigned they change nothing; and
  destroying again changes nothing more.
\<close>

theorem destroy_total_idempotent:
  "\<exists>s'. destroyEditor s = Inr s' \<and> componentWillUnmount s = Inr s' \<and> watchdog s' = None \<and>
        (watchdog s = None \<longrightarrow> s' = s) \<and>
        destroyEditor s' = Inr s' \<and> componentWillUnmount s' = Inr s'"
  by (auto simp: destroyEditor_def componentWillUnmount_def watchdog_destroy_def
      split: option.split Watchdog.split)

theorem destroy_witness:
  "watchdog (ready_world NullContext) = Some (Solo 0)
   \<and> (\<exists>s'. componentWillUnmount (ready_world NullContext) = Inr s' \<and> watchdog s' = None
          \<and> componentWillUnmount s' = Inr s')
   \<and> watchdog (example_world NullContext) = None
   \<and> componentWillUnmount (example_world NullContext) = Inr (example_world NullContext)"
proof -
  have a: "watchdog (ready_world NullContext) = Some (Solo 0)"
    "watchdog (example_world NullContext) = None"
    by (simp_all add: example_defs)
  show ?thesis
    using a destroy_total_idempotent [of "ready_world NullContext"]
      destroy_total_idempotent [of "example_world NullContext"]
    by auto
qed

section \<open>The choice of the watchdog\<close>




section \<open>Updates while no editor is live\<close>

text \<open>
  C10. While the getter \<open>editor\<close> gives \<open>null\<close>, \<open>shouldComponentUpdate\<close> answers
  \<open>false\<close> and leaves the state as it is, whatever the next properties are; an update
  that leaves the context as it is only assigns the new properties: no call is made,
  nothing is destroyed or created.
\<close>

theorem update_without_editor_is_noop:
  "editor s = Inr None \<Longrightarrow>
     shouldComponentUpdate np s = Inr (False, s) \<and>
     update np (reactContext s) s = Inr (s\<lparr>props := np, reactContext := reactContext s\<rparr>)"
  by (simp add: shouldComponentUpdate_def update_def)

theorem update_without_editor_witness:
  "editor (creating_world NullContext) = Inr None
   \<and> shouldComponentUpdate (example_props\<lparr>id_prop := JStr ''2'', data := JStr ''<p>B</p>'', disabled := Some (JBool True)\<rparr>)
       (creating_world NullContext) = Inr (False, creating_world NullContext)
   \<and> update (example_props\<lparr>id_prop := JStr ''2'', data := JStr ''<p>B</p>'', disabled := Some (JBool True)\<rparr>)
       NullContext (creating_world NullContext)
     = Inr ((creating_world NullContext)
             \<lparr>props := example_props\<lparr>id_prop := JStr ''2'', data := JStr ''<p>B</p>'', disabled := Some (JBool True)\<rparr>,
               reactContext := NullContext\<rparr>)"
proof -
  have h: "editor (creating_world NullContext) = Inr None"
    by (simp add: example_defs)
  have c: "reactContext (creating_world NullContext) = NullContext"
    by (simp add: example_defs)
  show ?thesis
    using h update_without_editor_is_noop [OF h] by (simp add: c)
qed

end
